theory Spec2Isabelle
  imports Complex_Main
begin

section \<open>Values, exceptions and the external collaborators\<close>

text \<open>
  The script \<^verbatim>\<open>examples/HawkinDB_RAG.py\<close> orchestrates two external objects: an
  OpenAI chat-completion client and a HawkinsDB store. Neither is part of the file, so
  both are parameters of the model (the record \<open>env\<close> below), each with a state of its
  own that every call may change. Python values that travel through the script
  (parsed JSON, frames, the returned dictionaries) are values of \<open>json\<close>; a
  dictionary is an association list in insertion order.
\<close>

datatype json =
    JNull
  | JBool bool
  | JInt int
  | JFloat int int
  | JStr string
  | JArr "json list"
  | JObj "(string \<times> json) list"

text \<open>
  \<open>JFloat m e\<close> stands for the finite float \<open>m * 2 ^ e\<close>. Python's truth test
  (\<^verbatim>\<open>if not frames\<close>): \<^verbatim>\<open>None\<close>, \<^verbatim>\<open>False\<close>, zero, and the empty string,
  list and dictionary are false, everything else is true.
\<close>

fun truthy :: "json \<Rightarrow> bool" where
  "truthy JNull = False"
| "truthy (JBool b) = b"
| "truthy (JInt i) = (i \<noteq> 0)"
| "truthy (JFloat m e) = (m \<noteq> 0)"
| "truthy (JStr s) = (s \<noteq> [])"
| "truthy (JArr xs) = (xs \<noteq> [])"
| "truthy (JObj kvs) = (kvs \<noteq> [])"

type_synonym dict = "(string \<times> json) list"

text \<open>
  A raised object carries its class name and \<^verbatim>\<open>str(e)\<close>. \<open>Exception\<close> is an
  instance of Python's \<^verbatim>\<open>Exception\<close>, which \<^verbatim>\<open>except Exception\<close> catches;
  \<open>BaseException\<close> is one that is not (\<^verbatim>\<open>KeyboardInterrupt\<close>, \<^verbatim>\<open>SystemExit\<close>) and
  passes through every handler of the script.
\<close>

datatype exn =
    Exception (exn_class: string) (exn_str: string)
  | BaseException (exn_class: string) (exn_str: string)

text \<open>The request of \<^verbatim>\<open>client.chat.completions.create\<close> and what it returns.\<close>

record request =
  model :: string
  messages :: "(string \<times> string) list list"
  temperature :: rat
  max_tokens :: "nat option"
  response_format :: "(string \<times> string) list option"

datatype chat_completion_message = ChatCompletionMessage (content: "string option")
datatype choice = Choice (message: chat_completion_message)
datatype chat_completion = ChatCompletion (choices: "choice list")

text \<open>
  The collaborators. \<open>'c\<close> is the state of the completion client, \<open>'d\<close> the state of
  the store. \<open>json_dumps\<close> is \<^verbatim>\<open>json.dumps(_, indent=2)\<close> and \<open>json_loads\<close> is
  \<^verbatim>\<open>json.loads\<close> on a string.
\<close>

record ('c, 'd) env =
  new_client :: "string \<Rightarrow> exn + 'c"
  new_db :: "string \<Rightarrow> exn + 'd"
  chat_create :: "request \<Rightarrow> 'c \<Rightarrow> (exn + chat_completion) \<times> 'c"
  add_entity :: "json \<Rightarrow> 'd \<Rightarrow> (exn + json) \<times> 'd"
  list_entities :: "'d \<Rightarrow> (exn + string list) \<times> 'd"
  query_frames :: "string \<Rightarrow> 'd \<Rightarrow> (exn + json) \<times> 'd"
  json_loads :: "string \<Rightarrow> exn + json"
  json_dumps :: "json \<Rightarrow> exn + string"

text \<open>The object: \<^verbatim>\<open>self.api_key\<close>, \<^verbatim>\<open>self.client\<close>, \<^verbatim>\<open>self.db\<close>.\<close>

record ('c, 'd) TextToHawkinsDB =
  api_key :: string
  client :: 'c
  db :: 'd

text \<open>
  What an operation does to the outside, in order: the calls it makes on the client
  and on the store, and the lines it logs.
\<close>

datatype event =
    Chat_create request
  | Add_entity json
  | List_entities
  | Query_frames string
  | Log_error string
  | Log_info string

fun is_chat :: "event \<Rightarrow> bool" where
  "is_chat (Chat_create r) = True"
| "is_chat _ = False"

fun is_write :: "event \<Rightarrow> bool" where
  "is_write (Add_entity j) = True"
| "is_write _ = False"

type_synonym ('a, 'c, 'd) run = "(exn + 'a) \<times> ('c, 'd) TextToHawkinsDB \<times> event list"

definition outcome :: "('a, 'c, 'd) run \<Rightarrow> exn + 'a" where
  "outcome r = fst r"

definition final :: "('a, 'c, 'd) run \<Rightarrow> ('c, 'd) TextToHawkinsDB" where
  "final r = fst (snd r)"

definition trace :: "('a, 'c, 'd) run \<Rightarrow> event list" where
  "trace r = snd (snd r)"

section \<open>Module import and construction\<close>

text \<open>
  Line 8, run when the module is imported:
  \<^verbatim>\<open>os.environ["OPENAI_API_KEY"]=""\<close>.
\<close>

definition module_import :: "(string \<rightharpoonup> string) \<Rightarrow> (string \<rightharpoonup> string)" where
  "module_import environ = environ(''OPENAI_API_KEY'' \<mapsto> '''')"

text \<open>
  \<^verbatim>\<open>api_key or os.getenv("OPENAI_API_KEY")\<close>: the argument when it is a non-empty
  string, otherwise whatever the environment holds (possibly nothing).
\<close>

definition api_key_or_getenv :: "string option \<Rightarrow> (string \<rightharpoonup> string) \<Rightarrow> string option" where
  "api_key_or_getenv arg environ =
     (case arg of
        Some k \<Rightarrow> if k \<noteq> [] then Some k else environ ''OPENAI_API_KEY''
      | None \<Rightarrow> environ ''OPENAI_API_KEY'')"

definition init ::
  "('c, 'd) env \<Rightarrow> (string \<rightharpoonup> string) \<Rightarrow> string option \<Rightarrow> exn + ('c, 'd) TextToHawkinsDB" where
  "init E environ arg =
     (case api_key_or_getenv arg environ of
        None \<Rightarrow> Inl (Exception ''ValueError'' ''OpenAI API key is required'')
      | Some k \<Rightarrow>
          if k = [] then Inl (Exception ''ValueError'' ''OpenAI API key is required'')
          else (case new_client E k of
                  Inl e \<Rightarrow> Inl e
                | Inr c \<Rightarrow>
                    (case new_db E ''sqlite'' of
                       Inl e \<Rightarrow> Inl e
                     | Inr d \<Rightarrow> Inr \<lparr>api_key = k, client = c, db = d\<rparr>)))"

section \<open>The operations\<close>

definition nl :: string where
  "nl = [CHR 0x0A]"

definition unlines :: "string list \<Rightarrow> string" where
  "unlines ls = concat (map (\<lambda>l. l @ nl) ls)"

text \<open>\<^verbatim>\<open>' '.join(context)\<close>.\<close>

fun space_join :: "string list \<Rightarrow> string" where
  "space_join [] = []"
| "space_join [s] = s"
| "space_join (s # t # ss) = s @ '' '' @ space_join (t # ss)"

text \<open>
  \<^verbatim>\<open>try: ... except Exception as e: logger.error(f"<prefix>{str(e)}"); return <handler>\<close>:
  an \<open>Exception\<close> raised by the body is logged and replaced by the handler's
  dictionary; anything else the body does is passed on.
\<close>

definition except_Exception ::
  "string \<Rightarrow> (string \<Rightarrow> dict) \<Rightarrow> (dict, 'c, 'd) run \<Rightarrow> (dict, 'c, 'd) run" where
  "except_Exception prefix handler r =
     (case r of
        (Inl (Exception c m), s, t) \<Rightarrow> (Inr (handler m), s, t @ [Log_error (prefix @ m)])
      | _ \<Rightarrow> r)"

subsection \<open>\<^verbatim>\<open>text_to_json\<close> (lines 22 to 65)\<close>

definition extraction_prompt :: string where
  \<open>extraction_prompt =
     unlines
      [''Convert the following text into a structured JSON format suitable for a memory database. '',
       ''        '',
       ''        Rules:'',
       ''        1. Extract key entity details, properties, and relationships'',
       ''        2. Use underscores for entity names (e.g., Python_Language)'',
       ''        3. Categorize memory as one of: Semantic, Episodic, or Procedural'',
       ''        4. Include relevant properties and relationships'',
       ''        '',
       ''        Required JSON format:'',
       ''        {'',
       ''            "column": "memory_type",'',
       ''            "name": "entity_name",'',
       ''            "properties": {'',
       ''                "key1": "value1",'',
       ''                "key2": ["value2a", "value2b"]'',
       ''            },'',
       ''            "relationships": {'',
       ''                "related_to": ["entity1", "entity2"],'',
       ''                "part_of": ["parent_entity"]'',
       ''            }'',
       ''        }'',
       [],
       ''        Text to convert:'']
     @ ''        ''\<close>

definition extraction_request :: "string \<Rightarrow> request" where
  "extraction_request text =
     \<lparr>model = ''gpt-3.5-turbo'',
      messages = [[(''role'', ''system''), (''content'', extraction_prompt)],
                  [(''role'', ''user''), (''content'', text)]],
      temperature = 3 / 10,
      max_tokens = None,
      response_format = Some [(''type'', ''json_object'')]\<rparr>"

text \<open>
  \<^verbatim>\<open>response.choices[0].message.content\<close>: indexing an empty list raises
  \<^verbatim>\<open>IndexError\<close>.
\<close>

definition first_content :: "chat_completion \<Rightarrow> exn + string option" where
  "first_content response =
     (case choices response of
        [] \<Rightarrow> Inl (Exception ''IndexError'' ''list index out of range'')
      | ch # _ \<Rightarrow> Inr (content (message ch)))"

text \<open>\<^verbatim>\<open>json.loads(json_str)\<close>, where \<^verbatim>\<open>json_str\<close> may be \<^verbatim>\<open>None\<close>.\<close>

definition loads_content :: "('c, 'd) env \<Rightarrow> string option \<Rightarrow> exn + json" where
  "loads_content E json_str =
     (case json_str of
        None \<Rightarrow> Inl (Exception ''TypeError''
                  ''the JSON object must be str, bytes or bytearray, not NoneType'')
      | Some s \<Rightarrow> json_loads E s)"

definition text_to_json_try ::
  "('c, 'd) env \<Rightarrow> ('c, 'd) TextToHawkinsDB \<Rightarrow> string \<Rightarrow> (json, 'c, 'd) run" where
  "text_to_json_try E self text =
     (case chat_create E (extraction_request text) (client self) of
        (Inl e, c') \<Rightarrow>
          (Inl e, self\<lparr>client := c'\<rparr>, [Chat_create (extraction_request text)])
      | (Inr response, c') \<Rightarrow>
          (case first_content response of
             Inl e \<Rightarrow> (Inl e, self\<lparr>client := c'\<rparr>, [Chat_create (extraction_request text)])
           | Inr json_str \<Rightarrow>
               (loads_content E json_str, self\<lparr>client := c'\<rparr>,
                [Chat_create (extraction_request text)])))"

text \<open>The handler of \<^verbatim>\<open>text_to_json\<close> logs and re-raises (line 65: \<^verbatim>\<open>raise\<close>).\<close>

definition text_to_json ::
  "('c, 'd) env \<Rightarrow> ('c, 'd) TextToHawkinsDB \<Rightarrow> string \<Rightarrow> (json, 'c, 'd) run" where
  "text_to_json E self text =
     (case text_to_json_try E self text of
        (Inl (Exception c m), s, t) \<Rightarrow>
          (Inl (Exception c m), s, t @ [Log_error (''Error converting text to JSON: '' @ m)])
      | r \<Rightarrow> r)"

subsection \<open>\<^verbatim>\<open>add_to_db\<close> (lines 67 to 88)\<close>

definition add_to_db_try ::
  "('c, 'd) env \<Rightarrow> ('c, 'd) TextToHawkinsDB \<Rightarrow> string \<Rightarrow> (dict, 'c, 'd) run" where
  "add_to_db_try E self text =
     (case text_to_json E self text of
        (Inl e, s1, t1) \<Rightarrow> (Inl e, s1, t1)
      | (Inr json_data, s1, t1) \<Rightarrow>
          (case json_dumps E json_data of
             Inl e \<Rightarrow> (Inl e, s1, t1)
           | Inr dumped \<Rightarrow>
               (case add_entity E json_data (db s1) of
                  (Inl e, d') \<Rightarrow>
                    (Inl e, s1\<lparr>db := d'\<rparr>,
                     t1 @ [Log_info (''Converted JSON: '' @ dumped), Add_entity json_data])
                | (Inr result, d') \<Rightarrow>
                    (Inr [(''success'', JBool True),
                          (''message'', JStr ''Successfully added to database''),
                          (''entity_data'', json_data),
                          (''db_result'', result)],
                     s1\<lparr>db := d'\<rparr>,
                     t1 @ [Log_info (''Converted JSON: '' @ dumped), Add_entity json_data]))))"

definition add_to_db ::
  "('c, 'd) env \<Rightarrow> ('c, 'd) TextToHawkinsDB \<Rightarrow> string \<Rightarrow> (dict, 'c, 'd) run" where
  "add_to_db E self text =
     except_Exception ''Error adding to database: ''
       (\<lambda>m. [(''success'', JBool False),
             (''message'', JStr m),
             (''entity_data'', JNull),
             (''db_result'', JNull)])
       (add_to_db_try E self text)"

subsection \<open>\<^verbatim>\<open>query_entity\<close> (lines 90 to 113)\<close>

definition query_entity_try ::
  "('c, 'd) env \<Rightarrow> ('c, 'd) TextToHawkinsDB \<Rightarrow> string \<Rightarrow> (dict, 'c, 'd) run" where
  "query_entity_try E self entity_name =
     (case query_frames E entity_name (db self) of
        (Inl e, d') \<Rightarrow> (Inl e, self\<lparr>db := d'\<rparr>, [Query_frames entity_name])
      | (Inr frames, d') \<Rightarrow>
          (if \<not> truthy frames then
             Inr [(''success'', JBool False),
                  (''message'', JStr (''No entity found with name: '' @ entity_name)),
                  (''data'', JNull)]
           else
             Inr [(''success'', JBool True),
                  (''message'', JStr ''Entity found''),
                  (''data'', frames)],
           self\<lparr>db := d'\<rparr>, [Query_frames entity_name]))"

definition query_entity ::
  "('c, 'd) env \<Rightarrow> ('c, 'd) TextToHawkinsDB \<Rightarrow> string \<Rightarrow> (dict, 'c, 'd) run" where
  "query_entity E self entity_name =
     except_Exception ''Error querying entity: ''
       (\<lambda>m. [(''success'', JBool False), (''message'', JStr m), (''data'', JNull)])
       (query_entity_try E self entity_name)"

subsection \<open>\<^verbatim>\<open>query_by_text\<close> (lines 115 to 174)\<close>

text \<open>
  The loop of lines 128 to 132 over \<^verbatim>\<open>entities[:5]\<close>, with the list
  \<^verbatim>\<open>context\<close> as accumulator. It stops at the first call that raises.
\<close>

fun build_context ::
  "('c, 'd) env \<Rightarrow> string list \<Rightarrow> string list \<Rightarrow> 'd \<Rightarrow> (exn + string list) \<times> 'd \<times> event list" where
  "build_context E [] context d = (Inr context, d, [])"
| "build_context E (entity_name # rest) context d =
     (case query_frames E entity_name d of
        (Inl e, d') \<Rightarrow> (Inl e, d', [Query_frames entity_name])
      | (Inr frames, d') \<Rightarrow>
          (if truthy frames then
             (case json_dumps E frames of
                Inl e \<Rightarrow> (Inl e, d', [Query_frames entity_name])
              | Inr s \<Rightarrow>
                  (case build_context E rest (context @ [s]) d' of
                     (r, d'', t) \<Rightarrow> (r, d'', Query_frames entity_name # t)))
           else
             (case build_context E rest context d' of
                (r, d'', t) \<Rightarrow> (r, d'', Query_frames entity_name # t))))"

definition prompt_head :: string where
  "prompt_head =
     unlines
      [''You are a helpful assistant with access to a knowledge base.'',
       ''            Answer the following question based on this context:'',
       [],
       ''            Context:'']
     @ ''            ''"

definition prompt_mid :: string where
  "prompt_mid = nl @ nl @ ''            Question: ''"

definition prompt_tail :: string where
  "prompt_tail =
     nl @
     unlines
      [[],
       ''            Rules:'',
       ''            1. Only use information from the provided context'',
       ''            2. If information is not in the context, say so'',
       ''            3. Be specific and include details when available'',
       ''            4. Format numbers and dates clearly'']
     @ ''            ''"

text \<open>The f-string of lines 135 to 148.\<close>

definition answer_prompt :: "string \<Rightarrow> string \<Rightarrow> string" where
  "answer_prompt context_str query_text =
     prompt_head @ context_str @ prompt_mid @ query_text @ prompt_tail"

definition answer_request :: "string \<Rightarrow> string \<Rightarrow> request" where
  "answer_request context_str query_text =
     \<lparr>model = ''gpt4o'',
      messages = [[(''role'', ''system''), (''content'', answer_prompt context_str query_text)]],
      temperature = 3 / 10,
      max_tokens = Some 500,
      response_format = None\<rparr>"

definition query_by_text_try ::
  "('c, 'd) env \<Rightarrow> ('c, 'd) TextToHawkinsDB \<Rightarrow> string \<Rightarrow> (dict, 'c, 'd) run" where
  "query_by_text_try E self query_text =
     (case list_entities E (db self) of
        (Inl e, d1) \<Rightarrow> (Inl e, self\<lparr>db := d1\<rparr>, [List_entities])
      | (Inr entities, d1) \<Rightarrow>
          if entities = [] then
            (Inr [(''success'', JBool True),
                  (''message'', JStr ''Database is empty''),
                  (''response'', JStr ''No information available in the database.'')],
             self\<lparr>db := d1\<rparr>, [List_entities])
          else
            (case build_context E (take 5 entities) [] d1 of
               (Inl e, d2, t2) \<Rightarrow> (Inl e, self\<lparr>db := d2\<rparr>, List_entities # t2)
             | (Inr context, d2, t2) \<Rightarrow>
                 (case chat_create E (answer_request (space_join context) query_text)
                         (client self) of
                    (Inl e, c') \<Rightarrow>
                      (Inl e, self\<lparr>client := c', db := d2\<rparr>,
                       List_entities # t2 @
                       [Chat_create (answer_request (space_join context) query_text)])
                  | (Inr response, c') \<Rightarrow>
                      (case first_content response of
                         Inl e \<Rightarrow>
                           (Inl e, self\<lparr>client := c', db := d2\<rparr>,
                            List_entities # t2 @
                            [Chat_create (answer_request (space_join context) query_text)])
                       | Inr answer \<Rightarrow>
                           (Inr [(''success'', JBool True),
                                 (''message'', JStr ''Query processed successfully''),
                                 (''response'',
                                  (case answer of None \<Rightarrow> JNull | Some a \<Rightarrow> JStr a))],
                            self\<lparr>client := c', db := d2\<rparr>,
                            List_entities # t2 @
                            [Chat_create (answer_request (space_join context) query_text)])))))"

definition query_by_text ::
  "('c, 'd) env \<Rightarrow> ('c, 'd) TextToHawkinsDB \<Rightarrow> string \<Rightarrow> (dict, 'c, 'd) run" where
  "query_by_text E self query_text =
     except_Exception ''Error processing query: ''
       (\<lambda>m. [(''success'', JBool False), (''message'', JStr m), (''response'', JNull)])
       (query_by_text_try E self query_text)"

subsection \<open>\<^verbatim>\<open>list_all_entities\<close> (lines 176 to 191)\<close>

definition list_all_entities_try ::
  "('c, 'd) env \<Rightarrow> ('c, 'd) TextToHawkinsDB \<Rightarrow> (dict, 'c, 'd) run" where
  "list_all_entities_try E self =
     (case list_entities E (db self) of
        (Inl e, d') \<Rightarrow> (Inl e, self\<lparr>db := d'\<rparr>, [List_entities])
      | (Inr entities, d') \<Rightarrow>
          (Inr [(''success'', JBool True),
                (''message'', JStr ''Entities retrieved successfully''),
                (''entities'', JArr (map JStr entities))],
           self\<lparr>db := d'\<rparr>, [List_entities]))"

definition list_all_entities ::
  "('c, 'd) env \<Rightarrow> ('c, 'd) TextToHawkinsDB \<Rightarrow> (dict, 'c, 'd) run" where
  "list_all_entities E self =
     except_Exception ''Error listing entities: ''
       (\<lambda>m. [(''success'', JBool False), (''message'', JStr m), (''entities'', JNull)])
       (list_all_entities_try E self)"

section \<open>Example collaborators\<close>

text \<open>
  Modelled from the spec: the memory store of section 6
  (\<^verbatim>\<open>add_entity(record) -> result\<close>,
  \<^verbatim>\<open>list_entities() -> ordered sequence of identifiers\<close>,
  \<^verbatim>\<open>query_frames(entity_id) -> sequence of frame records | empty\<close>), whose code is
  not part of the file. The state lists each entity with its frames, in insertion
  order. The spec does not say what \<open>add_entity\<close> returns; here it is the stored
  name. The general theorems below hold for every store; this one instantiates them.
\<close>

type_synonym store = "(string \<times> json list) list"

definition store_add_entity :: "json \<Rightarrow> store \<Rightarrow> (exn + json) \<times> store" where
  "store_add_entity record st =
     (case record of
        JObj kvs \<Rightarrow>
          (case map_of kvs ''name'' of
             Some (JStr n) \<Rightarrow> (Inr (JStr n), st @ [(n, [record])])
           | _ \<Rightarrow> (Inl (Exception ''ValueError'' ''Entity name is required''), st))
      | _ \<Rightarrow> (Inl (Exception ''ValueError'' ''Entity name is required''), st))"

definition store_list_entities :: "store \<Rightarrow> (exn + string list) \<times> store" where
  "store_list_entities st = (Inr (map fst st), st)"

definition store_query_frames :: "string \<Rightarrow> store \<Rightarrow> (exn + json) \<times> store" where
  "store_query_frames n st =
     (Inr (JArr (case map_of st n of None \<Rightarrow> [] | Some frames \<Rightarrow> frames)), st)"

text \<open>
  An example of the two functions of Python's \<^verbatim>\<open>json\<close> module, on the few values
  the examples use: \<^verbatim>\<open>json.loads("{}")\<close> is the empty dictionary, and
  \<^verbatim>\<open>json.dumps([1], indent=2)\<close> is the three lines \<^verbatim>\<open>[\<close>, \<^verbatim>\<open>  1\<close>, \<^verbatim>\<open>]\<close>.
  Everything else is refused.
\<close>

definition example_loads :: "string \<Rightarrow> exn + json" where
  "example_loads s =
     (if s = ''{}'' then Inr (JObj [])
      else Inl (Exception ''JSONDecodeError'' ''Expecting value: line 1 column 1 (char 0)''))"

fun example_dumps :: "json \<Rightarrow> exn + string" where
  "example_dumps (JObj []) = Inr ''{}''"
| "example_dumps (JArr []) = Inr ''[]''"
| "example_dumps (JArr [JInt i]) =
     (if i = 1 then Inr (''['' @ nl @ ''  1'' @ nl @ '']'')
      else if i = 2 then Inr (''['' @ nl @ ''  2'' @ nl @ '']'')
      else Inl (Exception ''TypeError'' ''not serializable in this example''))"
| "example_dumps _ = Inl (Exception ''TypeError'' ''not serializable in this example'')"

text \<open>
  An example client: its state counts the calls made, and every call is answered by
  the same \<open>reply\<close>.
\<close>

definition example_env :: "exn + chat_completion \<Rightarrow> (nat, store) env" where
  "example_env reply =
     \<lparr>new_client = (\<lambda>k. Inr 0),
      new_db = (\<lambda>storage_type. Inr []),
      chat_create = (\<lambda>r n. (reply, Suc n)),
      add_entity = store_add_entity,
      list_entities = store_list_entities,
      query_frames = store_query_frames,
      json_loads = example_loads,
      json_dumps = example_dumps\<rparr>"

definition completion_of :: "string \<Rightarrow> exn + chat_completion" where
  "completion_of s = Inr (ChatCompletion [Choice (ChatCompletionMessage (Some s))])"

definition connection_error :: "exn + chat_completion" where
  "connection_error = Inl (Exception ''APIConnectionError'' ''Connection error.'')"

definition example_self :: "store \<Rightarrow> (nat, store) TextToHawkinsDB" where
  "example_self st = \<lparr>api_key = ''sk-example'', client = 0, db = st\<rparr>"

text \<open>
  A second example: an environment in which every call raises the same error (the
  network is down and the database cannot be opened).
\<close>

definition broken_env :: "exn \<Rightarrow> (nat, store) env" where
  "broken_env e =
     \<lparr>new_client = (\<lambda>k. Inl e),
      new_db = (\<lambda>storage_type. Inl e),
      chat_create = (\<lambda>r n. (Inl e, Suc n)),
      add_entity = (\<lambda>record st. (Inl e, st)),
      list_entities = (\<lambda>st. (Inl e, st)),
      query_frames = (\<lambda>n st. (Inl e, st)),
      json_loads = (\<lambda>s. Inl e),
      json_dumps = (\<lambda>j. Inl e)\<rparr>"

definition unavailable :: exn where
  "unavailable = Exception ''ConnectionError'' ''service unavailable''"

text \<open>A reply that is not an \<^verbatim>\<open>Exception\<close>: the user interrupts the call.\<close>

definition interrupt :: "exn + chat_completion" where
  "interrupt = Inl (BaseException ''KeyboardInterrupt'' [])"

text \<open>A store of six entities, three of them without frames.\<close>

definition six_entities :: store where
  "six_entities =
     [(''a'', [JInt 1]), (''b'', []), (''c'', [JInt 2]), (''d'', []), (''e'', []), (''f'', [JInt 1])]"

section \<open>Notions used in the properties\<close>

text \<open>A credential is absent when it is \<^verbatim>\<open>None\<close> or the empty string.\<close>

definition absent :: "string option \<Rightarrow> bool" where
  "absent k = (k = None \<or> k = Some [])"

text \<open>
  The four keys that the specification requires of an extracted record, and the test
  that a value is a dictionary holding all of them. The script has no such test;
  the definition states the specification's requirement.
\<close>

definition required_keys :: "string list" where
  "required_keys = [''category'', ''name'', ''properties'', ''relationships'']"

definition has_required_keys :: "json \<Rightarrow> bool" where
  "has_required_keys j =
     (case j of JObj kvs \<Rightarrow> list_all (\<lambda>k. k \<in> set (map fst kvs)) required_keys | _ \<Rightarrow> False)"


section \<open>Construction\<close>

text \<open>
  C7. When no credential is passed and none is in the environment, construction
  raises \<^verbatim>\<open>ValueError("OpenAI API key is required")\<close>. The constructor has no
  handler, so the error reaches the caller and no object is produced.
\<close>

theorem init_without_credential:
  assumes "absent arg" and "absent (environ ''OPENAI_API_KEY'')"
  shows "init E environ arg = Inl (Exception ''ValueError'' ''OpenAI API key is required'')"
  using assms by (auto simp: absent_def init_def api_key_or_getenv_def)

theorem init_without_credential_witness:
  "absent None \<and> absent (Map.empty ''OPENAI_API_KEY'') \<and>
   init (example_env connection_error) Map.empty None =
     Inl (Exception ''ValueError'' ''OpenAI API key is required'')"
proof -
  have a: "absent None" by (simp add: absent_def)
  have b: "absent ((Map.empty :: string \<rightharpoonup> string) ''OPENAI_API_KEY'')" by (simp add: absent_def)
  show ?thesis
    using a b init_without_credential [OF a b, of "example_env connection_error"] by simp
qed

text \<open>
  C8, as the code has it. Importing the module stores the empty string under
  \<^verbatim>\<open>OPENAI_API_KEY\<close>, whatever the variable held before, and the constructor
  treats the empty string as absent. So in the environment as the import leaves it,
  a construction that omits \<^verbatim>\<open>api_key\<close>, or passes the empty string, raises the
  missing-credential error.
\<close>

theorem init_after_import:
  "module_import environ ''OPENAI_API_KEY'' = Some []
   \<and> init E (module_import environ) None =
       Inl (Exception ''ValueError'' ''OpenAI API key is required'')
   \<and> init E (module_import environ) (Some []) =
       Inl (Exception ''ValueError'' ''OpenAI API key is required'')"
  by (simp add: module_import_def init_def api_key_or_getenv_def)

text \<open>
  C8 as stated fails: the environment is read when the object is constructed
  (line 16), not when the module is imported. A caller that sets the variable after
  the import constructs the object without passing \<^verbatim>\<open>api_key\<close>.
\<close>

theorem init_fallback_after_import_counterexample:
  "init (example_env connection_error)
     ((module_import Map.empty)(''OPENAI_API_KEY'' \<mapsto> ''sk-example'')) None =
     Inr \<lparr>api_key = ''sk-example'', client = 0, db = []\<rparr>"
  by (simp add: init_def api_key_or_getenv_def module_import_def example_env_def)

section \<open>Running the handler\<close>

lemma outcome_except_Exception:
  "outcome (except_Exception prefix handler r) =
     (case outcome r of
        Inl (Exception c m) \<Rightarrow> Inr (handler m)
      | Inl (BaseException c m) \<Rightarrow> Inl (BaseException c m)
      | Inr d \<Rightarrow> Inr d)"
  by (cases r) (auto simp: except_Exception_def outcome_def split: sum.splits exn.splits)

lemma final_except_Exception:
  "final (except_Exception prefix handler r) = final r"
  by (cases r) (auto simp: except_Exception_def final_def split: sum.splits exn.splits)

lemma trace_except_Exception:
  "trace (except_Exception prefix handler r) =
     (case outcome r of
        Inl (Exception c m) \<Rightarrow> trace r @ [Log_error (prefix @ m)]
      | _ \<Rightarrow> trace r)"
  by (cases r) (auto simp: except_Exception_def trace_def outcome_def split: sum.splits exn.splits)

lemma final_tuple: "final (r, s, t) = s"
  by (simp add: final_def)

lemma outcome_text_to_json:
  "outcome (text_to_json E self text) = outcome (text_to_json_try E self text)"
  by (auto simp: text_to_json_def outcome_def split: prod.splits sum.splits exn.splits)

lemma outcome_text_to_json_try:
  "outcome (text_to_json_try E self text) =
     (case fst (chat_create E (extraction_request text) (client self)) of
        Inl e \<Rightarrow> Inl e
      | Inr response \<Rightarrow>
          (case first_content response of
             Inl e \<Rightarrow> Inl e
           | Inr json_str \<Rightarrow> loads_content E json_str))"
  by (auto simp: text_to_json_try_def outcome_def split: prod.splits sum.splits)

lemma trace_tuple: "trace (r, s, t) = t"
  by (simp add: trace_def)

lemma outcome_tuple: "outcome (r, s, t) = r"
  by (simp add: outcome_def)

lemma trace_text_to_json:
  "trace (text_to_json E self text) =
     Chat_create (extraction_request text) #
     (case outcome (text_to_json E self text) of
        Inl (Exception c m) \<Rightarrow> [Log_error (''Error converting text to JSON: '' @ m)]
      | _ \<Rightarrow> [])"
  by (cases "chat_create E (extraction_request text) (client self)")
     (auto simp: text_to_json_def text_to_json_try_def trace_tuple outcome_tuple
        split: sum.splits exn.splits)

lemma final_text_to_json:
  "final (text_to_json E self text) =
     self\<lparr>client := snd (chat_create E (extraction_request text) (client self))\<rparr>"
  by (cases "chat_create E (extraction_request text) (client self)")
     (auto simp: text_to_json_def text_to_json_try_def final_tuple
        split: sum.splits exn.splits)

lemma outcome_text_to_json_cases:
  "outcome (text_to_json E self text) =
     (case fst (chat_create E (extraction_request text) (client self)) of
        Inl e \<Rightarrow> Inl e
      | Inr response \<Rightarrow>
          (case choices response of
             [] \<Rightarrow> Inl (Exception ''IndexError'' ''list index out of range'')
           | ch # rest \<Rightarrow>
               (case content (message ch) of
                  None \<Rightarrow> Inl (Exception ''TypeError''
                            ''the JSON object must be str, bytes or bytearray, not NoneType'')
                | Some s \<Rightarrow> json_loads E s)))"
  by (auto simp: outcome_text_to_json outcome_text_to_json_try first_content_def loads_content_def
      split: sum.splits list.splits option.splits)







lemma example_text_to_json:
  "outcome (text_to_json (example_env (completion_of ''{}'')) (example_self []) ''Python'') =
     Inr (JObj [])"
  "outcome (text_to_json (example_env connection_error) (example_self []) ''Python'') =
     Inl (Exception ''APIConnectionError'' ''Connection error.'')"
  "outcome (text_to_json (example_env interrupt) (example_self []) ''Python'') =
     Inl (BaseException ''KeyboardInterrupt'' [])"
  by (simp_all add: outcome_text_to_json_cases example_env_def completion_of_def
      connection_error_def interrupt_def example_self_def example_loads_def)

section \<open>Extraction\<close>

text \<open>
  C1, as the code has it. \<^verbatim>\<open>text_to_json\<close> makes one completion call. It returns a
  value exactly when the call returns, the reply has a first choice whose content is
  a string, and \<^verbatim>\<open>json.loads\<close> accepts that string; the value returned is that
  parse, whatever it is: no key is looked at. Otherwise it raises the error of the
  call, \<^verbatim>\<open>IndexError\<close> for an empty list of choices, \<^verbatim>\<open>TypeError\<close> for a
  missing content, or the error of \<^verbatim>\<open>json.loads\<close>. An error that is an
  \<^verbatim>\<open>Exception\<close> is logged before it is raised again; one that is not passes
  through without a log line.
\<close>

theorem text_to_json_returns_parse:
  "(outcome (text_to_json E self text) = Inr j \<longleftrightarrow>
     (\<exists>response c' ch rest s.
        chat_create E (extraction_request text) (client self) = (Inr response, c')
        \<and> choices response = ch # rest
        \<and> content (message ch) = Some s
        \<and> json_loads E s = Inr j))
   \<and> outcome (text_to_json E self text) =
       (case fst (chat_create E (extraction_request text) (client self)) of
          Inl e \<Rightarrow> Inl e
        | Inr response \<Rightarrow>
            (case choices response of
               [] \<Rightarrow> Inl (Exception ''IndexError'' ''list index out of range'')
             | ch # rest \<Rightarrow>
                 (case content (message ch) of
                    None \<Rightarrow> Inl (Exception ''TypeError''
                              ''the JSON object must be str, bytes or bytearray, not NoneType'')
                  | Some s \<Rightarrow> json_loads E s)))
   \<and> trace (text_to_json E self text) =
       Chat_create (extraction_request text) #
       (case outcome (text_to_json E self text) of
          Inl (Exception c m) \<Rightarrow> [Log_error (''Error converting text to JSON: '' @ m)]
        | _ \<Rightarrow> [])
   \<and> final (text_to_json E self text) =
       self\<lparr>client := snd (chat_create E (extraction_request text) (client self))\<rparr>"
proof -
  have a: "outcome (text_to_json E self text) = Inr j \<longleftrightarrow>
     (\<exists>response c' ch rest s.
        chat_create E (extraction_request text) (client self) = (Inr response, c')
        \<and> choices response = ch # rest
        \<and> content (message ch) = Some s
        \<and> json_loads E s = Inr j)"
    by (cases "chat_create E (extraction_request text) (client self)")
       (auto simp: outcome_text_to_json outcome_text_to_json_try first_content_def
          loads_content_def split: sum.splits list.splits option.splits)
  from a outcome_text_to_json_cases [of E self "text"] trace_text_to_json [of E self "text"]
    final_text_to_json [of E self "text"]
  show ?thesis by (intro conjI)
qed

theorem text_to_json_returns_parse_witness:
  "outcome (text_to_json (example_env (completion_of ''{}'')) (example_self []) ''Python'') =
     Inr (JObj [])
   \<and> trace (text_to_json (example_env (completion_of ''{}'')) (example_self []) ''Python'') =
       [Chat_create (extraction_request ''Python'')]
   \<and> client (final (text_to_json (example_env (completion_of ''{}'')) (example_self []) ''Python'')) =
       Suc 0
   \<and> outcome (text_to_json (example_env connection_error) (example_self []) ''Python'') =
       Inl (Exception ''APIConnectionError'' ''Connection error.'')
   \<and> trace (text_to_json (example_env connection_error) (example_self []) ''Python'') =
       [Chat_create (extraction_request ''Python''),
        Log_error ''Error converting text to JSON: Connection error.'']
   \<and> outcome (text_to_json (example_env interrupt) (example_self []) ''Python'') =
       Inl (BaseException ''KeyboardInterrupt'' [])
   \<and> trace (text_to_json (example_env interrupt) (example_self []) ''Python'') =
       [Chat_create (extraction_request ''Python'')]"
proof -
  have c: "snd (chat_create (example_env (completion_of ''{}'')) (extraction_request ''Python'')
             (client (example_self []))) = Suc 0"
    by (simp add: example_env_def example_self_def)
  show ?thesis
    using example_text_to_json c
      text_to_json_returns_parse [of "example_env (completion_of ''{}'')" "example_self []"
        "''Python''" "JObj []"]
      text_to_json_returns_parse [of "example_env connection_error" "example_self []"
        "''Python''" "JObj []"]
      text_to_json_returns_parse [of "example_env interrupt" "example_self []"
        "''Python''" "JObj []"]
    by simp
qed

text \<open>
  C1 as stated fails: when the model answers \<^verbatim>\<open>{}\<close>, a JSON object,
  \<^verbatim>\<open>text_to_json\<close> returns the empty dictionary, which has none of the four keys.
\<close>

theorem text_to_json_missing_keys_counterexample:
  "outcome (text_to_json (example_env (completion_of ''{}'')) (example_self [])
      ''Python is a programming language.'') = Inr (JObj [])
   \<and> \<not> has_required_keys (JObj [])"
  by (simp add: outcome_text_to_json outcome_text_to_json_try example_env_def completion_of_def
      example_self_def first_content_def loads_content_def example_loads_def
      has_required_keys_def required_keys_def)

section \<open>Errors and the returned dictionaries\<close>

lemma add_to_db_try_returns:
  "outcome (add_to_db_try E self text) = Inr d \<Longrightarrow> map_of d ''success'' = Some (JBool True)"
  by (auto simp: add_to_db_try_def outcome_def split: prod.splits sum.splits)

lemma query_entity_try_returns:
  "outcome (query_entity_try E self entity_name) = Inr d \<Longrightarrow>
     map_of d ''success'' = Some (JBool True)
     \<or> d = [(''success'', JBool False),
            (''message'', JStr (''No entity found with name: '' @ entity_name)),
            (''data'', JNull)]"
  by (auto simp: query_entity_try_def outcome_def split: prod.splits sum.splits if_splits)

lemma query_by_text_try_returns:
  "outcome (query_by_text_try E self query_text) = Inr d \<Longrightarrow> map_of d ''success'' = Some (JBool True)"
  by (auto simp: query_by_text_try_def outcome_def split: prod.splits sum.splits if_splits)

lemma list_all_entities_try_returns:
  "outcome (list_all_entities_try E self) = Inr d \<Longrightarrow> map_of d ''success'' = Some (JBool True)"
  by (auto simp: list_all_entities_try_def outcome_def split: prod.splits sum.splits)

lemma broken_tries:
  "outcome (add_to_db_try (broken_env unavailable) (example_self []) ''Python'') =
     Inl (Exception ''ConnectionError'' ''service unavailable'')"
  "outcome (query_entity_try (broken_env unavailable) (example_self []) ''Python'') =
     Inl (Exception ''ConnectionError'' ''service unavailable'')"
  "outcome (query_by_text_try (broken_env unavailable) (example_self []) ''Python'') =
     Inl (Exception ''ConnectionError'' ''service unavailable'')"
  "outcome (list_all_entities_try (broken_env unavailable) (example_self [])) =
     Inl (Exception ''ConnectionError'' ''service unavailable'')"
  "outcome (text_to_json_try (broken_env unavailable) (example_self []) ''Python'') =
     Inl (Exception ''ConnectionError'' ''service unavailable'')"
  by (simp_all add: add_to_db_try_def query_entity_try_def query_by_text_try_def
      list_all_entities_try_def text_to_json_try_def text_to_json_def broken_env_def
      unavailable_def example_self_def outcome_def)

lemma broken_ops:
  "outcome (add_to_db (broken_env unavailable) (example_self []) ''Python'') =
     Inr [(''success'', JBool False), (''message'', JStr ''service unavailable''),
          (''entity_data'', JNull), (''db_result'', JNull)]"
  "outcome (query_entity (broken_env unavailable) (example_self []) ''Python'') =
     Inr [(''success'', JBool False), (''message'', JStr ''service unavailable''),
          (''data'', JNull)]"
  "outcome (query_by_text (broken_env unavailable) (example_self []) ''Python'') =
     Inr [(''success'', JBool False), (''message'', JStr ''service unavailable''),
          (''response'', JNull)]"
  "outcome (list_all_entities (broken_env unavailable) (example_self [])) =
     Inr [(''success'', JBool False), (''message'', JStr ''service unavailable''),
          (''entities'', JNull)]"
  using broken_tries
  by (simp_all add: add_to_db_def query_entity_def query_by_text_def list_all_entities_def
      outcome_except_Exception)




text \<open>
  C4. Whenever one of \<^verbatim>\<open>add_to_db\<close>, \<^verbatim>\<open>query_entity\<close>, \<^verbatim>\<open>query_by_text\<close>,
  \<^verbatim>\<open>list_all_entities\<close> returns a dictionary with \<^verbatim>\<open>success=False\<close>, every
  payload field of it is \<^verbatim>\<open>None\<close>, and its message is the cause: \<^verbatim>\<open>str(e)\<close> of
  the \<^verbatim>\<open>Exception\<close> that the \<^verbatim>\<open>try\<close> block raised or, for \<^verbatim>\<open>query_entity\<close>,
  the "No entity found" text with the name.
\<close>

theorem failure_envelope_has_null_payload:
  "(outcome (add_to_db E self text) = Inr d1 \<and> map_of d1 ''success'' = Some (JBool False) \<longrightarrow>
      map_of d1 ''entity_data'' = Some JNull \<and> map_of d1 ''db_result'' = Some JNull
      \<and> (\<exists>c m. outcome (add_to_db_try E self text) = Inl (Exception c m)
               \<and> map_of d1 ''message'' = Some (JStr m)))
   \<and> (outcome (query_entity E self entity_name) = Inr d2
        \<and> map_of d2 ''success'' = Some (JBool False) \<longrightarrow>
      map_of d2 ''data'' = Some JNull
      \<and> ((\<exists>c m. outcome (query_entity_try E self entity_name) = Inl (Exception c m)
                \<and> map_of d2 ''message'' = Some (JStr m))
          \<or> map_of d2 ''message'' = Some (JStr (''No entity found with name: '' @ entity_name))))
   \<and> (outcome (query_by_text E self query_text) = Inr d3
        \<and> map_of d3 ''success'' = Some (JBool False) \<longrightarrow>
      map_of d3 ''response'' = Some JNull
      \<and> (\<exists>c m. outcome (query_by_text_try E self query_text) = Inl (Exception c m)
               \<and> map_of d3 ''message'' = Some (JStr m)))
   \<and> (outcome (list_all_entities E self) = Inr d4
        \<and> map_of d4 ''success'' = Some (JBool False) \<longrightarrow>
      map_of d4 ''entities'' = Some JNull
      \<and> (\<exists>c m. outcome (list_all_entities_try E self) = Inl (Exception c m)
               \<and> map_of d4 ''message'' = Some (JStr m)))"
proof (intro conjI impI)
  assume a: "outcome (add_to_db E self text) = Inr d1 \<and> map_of d1 ''success'' = Some (JBool False)"
  then show "map_of d1 ''entity_data'' = Some JNull" "map_of d1 ''db_result'' = Some JNull"
    "\<exists>c m. outcome (add_to_db_try E self text) = Inl (Exception c m)
               \<and> map_of d1 ''message'' = Some (JStr m)"
    by (auto simp: add_to_db_def outcome_except_Exception split: sum.splits exn.splits
        dest: add_to_db_try_returns)
next
  assume a: "outcome (query_entity E self entity_name) = Inr d2
        \<and> map_of d2 ''success'' = Some (JBool False)"
  then show "map_of d2 ''data'' = Some JNull"
    "(\<exists>c m. outcome (query_entity_try E self entity_name) = Inl (Exception c m)
                \<and> map_of d2 ''message'' = Some (JStr m))
          \<or> map_of d2 ''message'' = Some (JStr (''No entity found with name: '' @ entity_name))"
    by (auto simp: query_entity_def outcome_except_Exception split: sum.splits exn.splits
        dest: query_entity_try_returns)
next
  assume a: "outcome (query_by_text E self query_text) = Inr d3
        \<and> map_of d3 ''success'' = Some (JBool False)"
  then show "map_of d3 ''response'' = Some JNull"
    "\<exists>c m. outcome (query_by_text_try E self query_text) = Inl (Exception c m)
               \<and> map_of d3 ''message'' = Some (JStr m)"
    by (auto simp: query_by_text_def outcome_except_Exception split: sum.splits exn.splits
        dest: query_by_text_try_returns)
next
  assume a: "outcome (list_all_entities E self) = Inr d4
        \<and> map_of d4 ''success'' = Some (JBool False)"
  then show "map_of d4 ''entities'' = Some JNull"
    "\<exists>c m. outcome (list_all_entities_try E self) = Inl (Exception c m)
               \<and> map_of d4 ''message'' = Some (JStr m)"
    by (auto simp: list_all_entities_def outcome_except_Exception split: sum.splits exn.splits
        dest: list_all_entities_try_returns)
qed

theorem failure_envelope_has_null_payload_witness:
  "outcome (add_to_db (broken_env unavailable) (example_self []) ''Python'') =
     Inr [(''success'', JBool False), (''message'', JStr ''service unavailable''),
          (''entity_data'', JNull), (''db_result'', JNull)]
   \<and> outcome (query_entity (broken_env unavailable) (example_self []) ''Python'') =
     Inr [(''success'', JBool False), (''message'', JStr ''service unavailable''),
          (''data'', JNull)]
   \<and> outcome (query_by_text (broken_env unavailable) (example_self []) ''Python'') =
     Inr [(''success'', JBool False), (''message'', JStr ''service unavailable''),
          (''response'', JNull)]
   \<and> outcome (list_all_entities (broken_env unavailable) (example_self [])) =
     Inr [(''success'', JBool False), (''message'', JStr ''service unavailable''),
          (''entities'', JNull)]
   \<and> (\<exists>c m. outcome (add_to_db_try (broken_env unavailable) (example_self []) ''Python'') =
               Inl (Exception c m) \<and> m = ''service unavailable'')
   \<and> (\<exists>c m. outcome (query_by_text_try (broken_env unavailable) (example_self []) ''Python'') =
               Inl (Exception c m) \<and> m = ''service unavailable'')
   \<and> (\<exists>c m. outcome (list_all_entities_try (broken_env unavailable) (example_self [])) =
               Inl (Exception c m) \<and> m = ''service unavailable'')"
  using broken_ops
    failure_envelope_has_null_payload [of "broken_env unavailable" "example_self []" "''Python''"
      "[(''success'', JBool False), (''message'', JStr ''service unavailable''),
        (''entity_data'', JNull), (''db_result'', JNull)]"
      "''Python''"
      "[(''success'', JBool False), (''message'', JStr ''service unavailable''),
        (''data'', JNull)]"
      "''Python''"
      "[(''success'', JBool False), (''message'', JStr ''service unavailable''),
        (''response'', JNull)]"
      "[(''success'', JBool False), (''message'', JStr ''service unavailable''),
        (''entities'', JNull)]"]
  by simp

section \<open>Queries\<close>

text \<open>
  C5. When the store lists no entity, \<^verbatim>\<open>query_by_text\<close> returns at once: the
  result is the fixed dictionary with \<^verbatim>\<open>success=True\<close>, the message
  "Database is empty" and the response "No information available in the database.";
  the only call made is the listing, so the completion client is never called and
  its state is untouched.
\<close>

theorem query_by_text_empty_store:
  assumes "list_entities E (db self) = (Inr [], d')"
  shows "outcome (query_by_text E self query_text) =
           Inr [(''success'', JBool True),
                (''message'', JStr ''Database is empty''),
                (''response'', JStr ''No information available in the database.'')]
         \<and> trace (query_by_text E self query_text) = [List_entities]
         \<and> filter is_chat (trace (query_by_text E self query_text)) = []
         \<and> client (final (query_by_text E self query_text)) = client self"
  using assms
  by (simp add: query_by_text_def query_by_text_try_def except_Exception_def
      outcome_def trace_def final_def)

theorem query_by_text_empty_store_witness:
  "list_entities (example_env connection_error) (db (example_self [])) = (Inr [], [])
   \<and> outcome (query_by_text (example_env connection_error) (example_self []) ''Who made Python?'') =
       Inr [(''success'', JBool True),
            (''message'', JStr ''Database is empty''),
            (''response'', JStr ''No information available in the database.'')]
   \<and> trace (query_by_text (example_env connection_error) (example_self []) ''Who made Python?'') =
       [List_entities]"
proof -
  have h: "list_entities (example_env connection_error) (db (example_self [])) = (Inr [], [])"
    by (simp add: example_env_def example_self_def store_list_entities_def)
  show ?thesis
    using h query_by_text_empty_store [OF h, of "''Who made Python?''"] by simp
qed

text \<open>
  C6. A name absent from the store is one for which the store's frame query yields
  the empty sequence. For such a name \<^verbatim>\<open>query_entity\<close> returns (it does not raise)
  the dictionary with \<^verbatim>\<open>success=False\<close>, \<^verbatim>\<open>data=None\<close> and the message
  "No entity found with name: " followed by the name.
\<close>

theorem query_entity_absent:
  assumes "query_frames E entity_name (db self) = (Inr (JArr []), d')"
  shows "\<exists>d. outcome (query_entity E self entity_name) = Inr d
             \<and> map_of d ''success'' = Some (JBool False)
             \<and> map_of d ''data'' = Some JNull
             \<and> map_of d ''message'' = Some (JStr (''No entity found with name: '' @ entity_name))"
  using assms
  by (simp add: query_entity_def query_entity_try_def except_Exception_def outcome_def)

theorem query_entity_absent_witness:
  "query_frames (example_env connection_error) ''Python_Language''
     (db (example_self [(''Tesla_Model_3'', [JInt 1])])) =
     (Inr (JArr []), [(''Tesla_Model_3'', [JInt 1])])
   \<and> (\<exists>d. outcome (query_entity (example_env connection_error)
                (example_self [(''Tesla_Model_3'', [JInt 1])]) ''Python_Language'') = Inr d
          \<and> map_of d ''success'' = Some (JBool False)
          \<and> map_of d ''data'' = Some JNull
          \<and> map_of d ''message'' = Some (JStr ''No entity found with name: Python_Language''))"
proof -
  have h: "query_frames (example_env connection_error) ''Python_Language''
             (db (example_self [(''Tesla_Model_3'', [JInt 1])])) =
             (Inr (JArr []), [(''Tesla_Model_3'', [JInt 1])])"
    by (simp add: example_env_def example_self_def store_query_frames_def)
  show ?thesis
    using h query_entity_absent [OF h] by simp
qed

text \<open>
  C9. Whenever the frame query returns a value that Python's truth test rejects
  (the empty list, \<^verbatim>\<open>None\<close>, an empty dictionary, ...), \<^verbatim>\<open>query_entity\<close> returns
  the "No entity found" dictionary. The listing is never consulted, so two stores
  that both answer with such a value, one that lists the name and one that does
  not, give the same result.
\<close>

theorem query_entity_falsy_frames:
  assumes "query_frames E entity_name (db self1) = (Inr frames1, d1)" and "\<not> truthy frames1"
    and "query_frames E entity_name (db self2) = (Inr frames2, d2)" and "\<not> truthy frames2"
  shows "outcome (query_entity E self1 entity_name) =
           Inr [(''success'', JBool False),
                (''message'', JStr (''No entity found with name: '' @ entity_name)),
                (''data'', JNull)]
         \<and> outcome (query_entity E self2 entity_name) = outcome (query_entity E self1 entity_name)"
  using assms
  by (simp add: query_entity_def query_entity_try_def except_Exception_def outcome_def)

theorem query_entity_falsy_frames_witness:
  "fst (list_entities (example_env connection_error) (db (example_self [(''Draft'', [])]))) =
     Inr [''Draft'']
   \<and> fst (list_entities (example_env connection_error) (db (example_self []))) = Inr []
   \<and> query_frames (example_env connection_error) ''Draft'' (db (example_self [(''Draft'', [])])) =
       (Inr (JArr []), [(''Draft'', [])])
   \<and> \<not> truthy (JArr [])
   \<and> query_frames (example_env connection_error) ''Draft'' (db (example_self [])) =
       (Inr (JArr []), [])
   \<and> outcome (query_entity (example_env connection_error) (example_self [(''Draft'', [])]) ''Draft'') =
       Inr [(''success'', JBool False),
            (''message'', JStr ''No entity found with name: Draft''),
            (''data'', JNull)]
   \<and> outcome (query_entity (example_env connection_error) (example_self []) ''Draft'') =
       outcome (query_entity (example_env connection_error) (example_self [(''Draft'', [])]) ''Draft'')"
proof -
  have l1: "fst (list_entities (example_env connection_error) (db (example_self [(''Draft'', [])]))) =
              Inr [''Draft'']"
    by (simp add: example_env_def example_self_def store_list_entities_def)
  have l2: "fst (list_entities (example_env connection_error) (db (example_self []))) = Inr []"
    by (simp add: example_env_def example_self_def store_list_entities_def)
  have q1: "query_frames (example_env connection_error) ''Draft'' (db (example_self [(''Draft'', [])])) =
              (Inr (JArr []), [(''Draft'', [])])"
    by (simp add: example_env_def example_self_def store_query_frames_def)
  have q2: "query_frames (example_env connection_error) ''Draft'' (db (example_self [])) =
              (Inr (JArr []), [])"
    by (simp add: example_env_def example_self_def store_query_frames_def)
  have f: "\<not> truthy (JArr [])" by simp
  show ?thesis
    using l1 l2 q1 q2 f query_entity_falsy_frames [OF q1 f q2 f] by simp
qed

section \<open>The context of a question\<close>

lemma build_context_only_queries_aux:
  "build_context E ns ctx d = (r, d', t) \<Longrightarrow> ev \<in> set t \<Longrightarrow> \<exists>n. ev = Query_frames n"
proof (induction ns arbitrary: ctx d r d' t)
  case Nil
  then show ?case by simp
next
  case (Cons n ns)
  then show ?case
    by (fastforce split: prod.splits sum.splits if_splits)
qed

lemma build_context_only_queries:
  "ev \<in> set (snd (snd (build_context E ns ctx d))) \<Longrightarrow> \<exists>n. ev = Query_frames n"
  using build_context_only_queries_aux [of E ns ctx d] by (cases "build_context E ns ctx d") auto

lemma build_context_no_write: "filter is_write (snd (snd (build_context E ns ctx d))) = []"
  by (auto simp: filter_empty_conv dest: build_context_only_queries)


lemma build_context_db_aux:
  "\<forall>n d. snd (query_frames E n d) = d \<Longrightarrow> build_context E ns ctx d = (r, d', t) \<Longrightarrow> d' = d"
proof (induction ns arbitrary: ctx d r d' t)
  case Nil
  then show ?case by simp
next
  case (Cons n ns)
  have q: "snd (query_frames E n d) = d" using Cons.prems(1) by simp
  show ?case
  proof (cases "query_frames E n d")
    case (Pair res d1)
    with q have d1: "d1 = d" by simp
    show ?thesis
      using Pair d1 Cons.prems(2) Cons.IH [OF Cons.prems(1)]
      by (fastforce split: prod.splits sum.splits if_splits)
  qed
qed

lemma build_context_db:
  "\<forall>n d. snd (query_frames E n d) = d \<Longrightarrow> fst (snd (build_context E ns ctx d)) = d"
  using build_context_db_aux [of E ns ctx d] by (cases "build_context E ns ctx d") auto








section \<open>The read path\<close>

lemma trace_query_entity_no_write:
  "filter is_write (trace (query_entity E self n)) = []"
  by (auto simp: query_entity_def query_entity_try_def except_Exception_def trace_def
      split: prod.splits sum.splits exn.splits)

lemma trace_list_all_entities_no_write:
  "filter is_write (trace (list_all_entities E self)) = []"
  by (auto simp: list_all_entities_def list_all_entities_try_def except_Exception_def trace_def
      split: prod.splits sum.splits exn.splits)

lemma trace_query_by_text_no_write:
  "filter is_write (trace (query_by_text E self q)) = []"
proof (cases "list_entities E (db self)")
  case (Pair r d1)
  show ?thesis
  proof (cases "build_context E (take 5 (projr r)) [] d1")
    case (fields b d2 t2)
    have "filter is_write t2 = []"
      using build_context_no_write [of E "take 5 (projr r)" "[]" d1] fields by simp
    with Pair fields show ?thesis
      by (auto simp: query_by_text_def query_by_text_try_def except_Exception_def trace_def
          split: prod.splits sum.splits exn.splits)
  qed
qed

lemma db_query_entity:
  "\<forall>n d. snd (query_frames E n d) = d \<Longrightarrow> db (final (query_entity E self n)) = db self"
proof -
  assume a: "\<forall>n d. snd (query_frames E n d) = d"
  have "snd (query_frames E n (db self)) = db self" using a by simp
  then show ?thesis
    by (cases "query_frames E n (db self)")
       (auto simp: query_entity_def query_entity_try_def final_except_Exception final_tuple
          split: sum.splits)
qed

lemma db_list_all_entities:
  "\<forall>d. snd (list_entities E d) = d \<Longrightarrow> db (final (list_all_entities E self)) = db self"
proof -
  assume a: "\<forall>d. snd (list_entities E d) = d"
  have "snd (list_entities E (db self)) = db self" using a by simp
  then show ?thesis
    by (cases "list_entities E (db self)")
       (auto simp: list_all_entities_def list_all_entities_try_def final_except_Exception final_tuple
          split: sum.splits)
qed

lemma db_query_by_text:
  assumes l: "\<forall>d. snd (list_entities E d) = d" and q: "\<forall>n d. snd (query_frames E n d) = d"
  shows "db (final (query_by_text E self query_text)) = db self"
proof (cases "list_entities E (db self)")
  case (Pair r d1)
  have d1: "d1 = db self" using l Pair by (metis snd_conv)
  show ?thesis
  proof (cases "build_context E (take 5 (projr r)) [] d1")
    case (fields b d2 t2)
    have "d2 = d1"
      using build_context_db [OF q, of "take 5 (projr r)" "[]" d1] fields by simp
    with Pair fields d1 show ?thesis
      by (auto simp: query_by_text_def query_by_text_try_def final_except_Exception final_tuple
          split: prod.splits sum.splits)
  qed
qed

lemma example_reads_pure:
  "(\<forall>d. snd (list_entities (example_env reply) d) = d)
   \<and> (\<forall>n d. snd (query_frames (example_env reply) n d) = d)"
  by (simp add: example_env_def store_list_entities_def store_query_frames_def)

text \<open>
  C10. \<^verbatim>\<open>query_entity\<close>, \<^verbatim>\<open>query_by_text\<close> and \<^verbatim>\<open>list_all_entities\<close> never
  call \<^verbatim>\<open>add_entity\<close>: the only calls they make on the store are
  \<^verbatim>\<open>list_entities\<close> and \<^verbatim>\<open>query_frames\<close>. So when these two leave the store as
  it is, the store after the operation is the store before it.
\<close>

theorem read_path_leaves_store:
  "filter is_write (trace (query_entity E self entity_name)) = []
   \<and> filter is_write (trace (query_by_text E self query_text)) = []
   \<and> filter is_write (trace (list_all_entities E self)) = []
   \<and> ((\<forall>d. snd (list_entities E d) = d) \<and> (\<forall>n d. snd (query_frames E n d) = d) \<longrightarrow>
        db (final (query_entity E self entity_name)) = db self
        \<and> db (final (query_by_text E self query_text)) = db self
        \<and> db (final (list_all_entities E self)) = db self)"
  using trace_query_entity_no_write [of E self entity_name]
    trace_query_by_text_no_write [of E self query_text]
    trace_list_all_entities_no_write [of E self]
    db_query_entity [of E self entity_name] db_query_by_text [of E self query_text]
    db_list_all_entities [of E self]
  by blast

theorem read_path_leaves_store_witness:
  "((\<forall>d. snd (list_entities (example_env (completion_of ''Guido van Rossum'')) d) = d)
    \<and> (\<forall>n d. snd (query_frames (example_env (completion_of ''Guido van Rossum'')) n d) = d))
   \<and> db (final (query_entity (example_env (completion_of ''Guido van Rossum''))
            (example_self six_entities) ''a'')) = six_entities
   \<and> db (final (query_by_text (example_env (completion_of ''Guido van Rossum''))
            (example_self six_entities) ''Who made Python?'')) = six_entities
   \<and> db (final (list_all_entities (example_env (completion_of ''Guido van Rossum''))
            (example_self six_entities))) = six_entities
   \<and> filter is_write (trace (query_by_text (example_env (completion_of ''Guido van Rossum''))
            (example_self six_entities) ''Who made Python?'')) = []"
  using example_reads_pure [of "completion_of ''Guido van Rossum''"]
    read_path_leaves_store [of "example_env (completion_of ''Guido van Rossum'')"
      "example_self six_entities" "''a''" "''Who made Python?''"]
  by (simp add: example_self_def)

end
